theory Spec2Isabelle
  imports Complex_Main "HOL-Library.Word" "HOL-Library.Log_Nat"
begin

unbundle bit_operations_syntax

section \<open>2D procedural noise (noise.py)\<close>

text \<open>
  Python integers are unbounded and are modelled as \<^typ>\<open>int\<close>; the bit operations
  \<open>&\<close>, \<open>^\<close> and \<open>>>\<close> of Python act on the infinite two's complement
  representation, as \<open>AND\<close>, \<open>XOR\<close> and \<^const>\<open>drop_bit\<close> do on \<^typ>\<open>int\<close>.

  Python floats are read in two ways. The value, fBm and Perlin noise are written over
  \<^typ>\<open>real\<close> with exact arithmetic; the properties proved of them below are about
  inputs where binary64 arithmetic is exact as well (lattice points, a single octave),
  about the integer hash, about exceptions and about the literals of the gradient
  palette. The Worley noise is written over binary64 values with correctly rounded
  operations, since its properties depend on the rounding of \<open>ix + fx\<close>.
\<close>

subsection \<open>Utility functions\<close>

definition hash32 :: "int \<Rightarrow> int" where
  "hash32 x0 =
     (let x1 = x0 AND 0xFFFFFFFF;
          x2 = x1 XOR drop_bit 16 x1;
          x3 = (x2 * 0x7feb352d) AND 0xFFFFFFFF;
          x4 = x3 XOR drop_bit 15 x3;
          x5 = (x4 * 0x846ca68b) AND 0xFFFFFFFF;
          x6 = x5 XOR drop_bit 16 x5
      in x6 AND 0xFFFFFFFF)"

definition hash2d :: "int \<Rightarrow> int \<Rightarrow> int \<Rightarrow> int" where
  "hash2d x y seed =
     (let h = (x + seed * 0x9e3779b1) AND 0xFFFFFFFF;
          k = (y XOR (seed * 0x85ebca6b)) AND 0xFFFFFFFF;
          h' = hash32 h;
          k' = hash32 k
      in hash32 (h' XOR k'))"

definition to_unit_double :: "int \<Rightarrow> real" where
  "to_unit_double v = real_of_int v / 0xFFFFFFFF"

definition lerp :: "real \<Rightarrow> real \<Rightarrow> real \<Rightarrow> real" where
  "lerp a b t = a + t * (b - a)"

definition fade :: "real \<Rightarrow> real" where
  "fade t = t * t * t * (t * (t * 6 - 15) + 10)"

text \<open>
  The reference avalanche mix on 32-bit unsigned values, following the specification's
  description of \<open>hash32\<close>: every step is an operation of the machine type, so the
  multiplications wrap modulo \<open>2 ^ 32\<close> and the shifts are logical.
\<close>

definition hash32_ref :: "32 word \<Rightarrow> 32 word" where
  "hash32_ref w0 =
     (let w1 = w0 XOR drop_bit 16 w0;
          w2 = w1 * 0x7feb352d;
          w3 = w2 XOR drop_bit 15 w2;
          w4 = w3 * 0x846ca68b
      in w4 XOR drop_bit 16 w4)"

subsection \<open>Python exceptions and built-in operations that can raise\<close>

datatype py_error = ValueError | ZeroDivisionError | IndexError | OverflowError

text \<open>List indexing \<open>xs[i]\<close>: a negative index counts from the end, an index out of
  range raises \<open>IndexError\<close>.\<close>

definition py_getitem :: "'a list \<Rightarrow> int \<Rightarrow> py_error + 'a" where
  "py_getitem xs i =
     (if 0 \<le> i \<and> i < int (length xs) then Inr (xs ! nat i)
      else if i < 0 \<and> - int (length xs) \<le> i then Inr (xs ! nat (int (length xs) + i))
      else Inl IndexError)"

text \<open>Float division \<open>a / b\<close> raises \<open>ZeroDivisionError\<close> when the divisor is zero.\<close>

definition py_truediv :: "real \<Rightarrow> real \<Rightarrow> py_error + real" where
  "py_truediv a b = (if b = 0 then Inl ZeroDivisionError else Inr (a / b))"

subsection \<open>Value noise\<close>

record ValueNoise2D =
  value_seed :: int

definition ValueNoise2D_init :: "int \<Rightarrow> ValueNoise2D" where
  "ValueNoise2D_init s = \<lparr>value_seed = s\<rparr>"

definition ValueNoise2D_lattice_value :: "ValueNoise2D \<Rightarrow> int \<Rightarrow> int \<Rightarrow> real" where
  "ValueNoise2D_lattice_value self ix iy =
     (let h = hash2d ix iy (value_seed self) in to_unit_double h)"

definition ValueNoise2D_sample :: "ValueNoise2D \<Rightarrow> real \<Rightarrow> real \<Rightarrow> real" where
  "ValueNoise2D_sample self x y =
     (let x0 = \<lfloor>x\<rfloor>;
          y0 = \<lfloor>y\<rfloor>;
          x1 = x0 + 1;
          y1 = y0 + 1;
          fx = x - of_int x0;
          fy = y - of_int y0;
          v00 = ValueNoise2D_lattice_value self x0 y0;
          v10 = ValueNoise2D_lattice_value self x1 y0;
          v01 = ValueNoise2D_lattice_value self x0 y1;
          v11 = ValueNoise2D_lattice_value self x1 y1;
          u = fade fx;
          v = fade fy;
          vx0 = lerp v00 v10 u;
          vx1 = lerp v01 v11 u
      in lerp vx0 vx1 v)"

subsection \<open>fBm value noise wrapper\<close>

record FBMValueNoise2D =
  base :: ValueNoise2D
  octaves :: int
  lacunarity :: real
  gain :: real

text \<open>The constructor stores its arguments; it checks none of them.\<close>

definition FBMValueNoise2D_init :: "int \<Rightarrow> int \<Rightarrow> real \<Rightarrow> real \<Rightarrow> FBMValueNoise2D" where
  "FBMValueNoise2D_init s n l g =
     \<lparr>base = ValueNoise2D_init s, octaves = n, lacunarity = l, gain = g\<rparr>"

text \<open>
  The loop \<open>for _ in range(self.octaves)\<close> on the state
  \<open>(amp, freq, total, amp_sum)\<close> (\<open>total\<close> is written \<open>tot\<close>); the first
  argument counts the iterations left.
\<close>

fun FBMValueNoise2D_loop ::
  "nat \<Rightarrow> FBMValueNoise2D \<Rightarrow> real \<Rightarrow> real \<Rightarrow> real \<times> real \<times> real \<times> real
     \<Rightarrow> real \<times> real \<times> real \<times> real" where
  "FBMValueNoise2D_loop 0 self x y st = st"
| "FBMValueNoise2D_loop (Suc n) self x y (amp, freq, tot, amp_sum) =
     FBMValueNoise2D_loop n self x y
       (amp * gain self,
        freq * lacunarity self,
        tot + ValueNoise2D_sample (base self) (x * freq) (y * freq) * amp,
        amp_sum + amp)"

text \<open>\<open>range(n)\<close> is empty for \<open>n \<le> 0\<close>, so the loop runs \<open>nat n\<close> times.\<close>

definition FBMValueNoise2D_sample :: "FBMValueNoise2D \<Rightarrow> real \<Rightarrow> real \<Rightarrow> py_error + real" where
  "FBMValueNoise2D_sample self x y =
     (case FBMValueNoise2D_loop (nat (octaves self)) self x y (1, 1, 0, 0) of
        (amp, freq, tot, amp_sum) \<Rightarrow> py_truediv tot amp_sum)"

subsection \<open>Perlin noise (gradient)\<close>

record PerlinNoise2D =
  perlin_seed :: int

definition PerlinNoise2D_init :: "int \<Rightarrow> PerlinNoise2D" where
  "PerlinNoise2D_init s = \<lparr>perlin_seed = s\<rparr>"

definition PerlinNoise2D_gradients :: "(real \<times> real) list" where
  "PerlinNoise2D_gradients =
     [(1, 0),
      (- 1, 0),
      (0, 1),
      (0, - 1),
      (0.70710678, 0.70710678),
      (- 0.70710678, 0.70710678),
      (0.70710678, - 0.70710678),
      (- 0.70710678, - 0.70710678)]"

definition PerlinNoise2D_gradient :: "PerlinNoise2D \<Rightarrow> int \<Rightarrow> int \<Rightarrow> py_error + real \<times> real" where
  "PerlinNoise2D_gradient self ix iy =
     (let h = hash2d ix iy (perlin_seed self);
          idx = h AND 7
      in py_getitem PerlinNoise2D_gradients idx)"

definition PerlinNoise2D_dot_grid_gradient ::
  "PerlinNoise2D \<Rightarrow> int \<Rightarrow> int \<Rightarrow> real \<Rightarrow> real \<Rightarrow> py_error + real" where
  "PerlinNoise2D_dot_grid_gradient self ix iy x y =
     (case PerlinNoise2D_gradient self ix iy of
        Inl e \<Rightarrow> Inl e
      | Inr (gx, gy) \<Rightarrow>
          (let dx = x - of_int ix;
               dy = y - of_int iy
           in Inr (gx * dx + gy * dy)))"

definition PerlinNoise2D_sample :: "PerlinNoise2D \<Rightarrow> real \<Rightarrow> real \<Rightarrow> py_error + real" where
  "PerlinNoise2D_sample self x y =
     (let x0 = \<lfloor>x\<rfloor>;
          y0 = \<lfloor>y\<rfloor>;
          x1 = x0 + 1;
          y1 = y0 + 1;
          sx = fade (x - of_int x0);
          sy = fade (y - of_int y0)
      in case PerlinNoise2D_dot_grid_gradient self x0 y0 x y of Inl e \<Rightarrow> Inl e | Inr n00 \<Rightarrow>
         (case PerlinNoise2D_dot_grid_gradient self x1 y0 x y of Inl e \<Rightarrow> Inl e | Inr n10 \<Rightarrow>
         (case PerlinNoise2D_dot_grid_gradient self x0 y1 x y of Inl e \<Rightarrow> Inl e | Inr n01 \<Rightarrow>
         (case PerlinNoise2D_dot_grid_gradient self x1 y1 x y of Inl e \<Rightarrow> Inl e | Inr n11 \<Rightarrow>
            (let ix0 = lerp n00 n10 sx;
                 ix1 = lerp n01 n11 sx;
                 value = lerp ix0 ix1 sy;
                 v = value * 0.5 + 0.5
             in Inr (max 0 (min 1 v)))))))"

subsection \<open>Binary64 floating point\<close>

text \<open>
  A Python float is an IEEE 754 binary64 value: a finite number, an infinity or NaN.
  The two zeros are identified (they compare equal, and nothing below tells them apart).
  Every arithmetic operation computes the exact result and rounds it to the nearest
  representable value, ties to the even significand; a result that rounds to \<open>2 ^ 1024\<close>
  or beyond overflows to an infinity.
\<close>

datatype f64 = Finite real | PInf | NInf | NaN

text \<open>Rounding to the nearest integer, ties to even.\<close>

definition round_even :: "real \<Rightarrow> int" where
  "round_even x =
     (let f = \<lfloor>x\<rfloor>; r = x - of_int f
      in if r < 1 / 2 then f else if 1 / 2 < r then f + 1 else if even f then f else f + 1)"

definition scale2 :: "int \<Rightarrow> real" where
  "scale2 e = (if 0 \<le> e then 2 ^ nat e else 1 / 2 ^ nat (- e))"

text \<open>The binary exponent \<open>e\<close> of \<open>x \<noteq> 0\<close>, with \<open>2 ^ e \<le> \<bar>x\<bar> < 2 ^ (e + 1)\<close>;
  \<open>floorlog 2 n\<close> is the bit length of \<open>n\<close>.\<close>

definition ilog2 :: "real \<Rightarrow> int" where
  "ilog2 x = (if 1 \<le> \<bar>x\<bar> then int (floorlog 2 (nat \<lfloor>\<bar>x\<bar>\<rfloor>)) - 1
              else - int (floorlog 2 (nat (\<lceil>1 / \<bar>x\<bar>\<rceil> - 1))))"

text \<open>Rounding to 53 significant bits, with the exponent kept at \<open>- 1022\<close> or above
  (subnormal numbers), and no upper limit on the exponent.\<close>

definition rnd :: "real \<Rightarrow> real" where
  "rnd x =
     (if x = 0 then 0
      else of_int (round_even (x / scale2 (max (- 1022) (ilog2 x) - 52)))
             * scale2 (max (- 1022) (ilog2 x) - 52))"

definition f64_round :: "real \<Rightarrow> f64" where
  "f64_round x =
     (if 2 ^ 1024 \<le> rnd x then PInf else if rnd x \<le> - (2 ^ 1024) then NInf else Finite (rnd x))"

fun f64_add :: "f64 \<Rightarrow> f64 \<Rightarrow> f64" where
  "f64_add (Finite a) (Finite b) = f64_round (a + b)"
| "f64_add NaN b = NaN"
| "f64_add a NaN = NaN"
| "f64_add PInf NInf = NaN"
| "f64_add NInf PInf = NaN"
| "f64_add PInf b = PInf"
| "f64_add a PInf = PInf"
| "f64_add NInf b = NInf"
| "f64_add a NInf = NInf"

fun f64_sub :: "f64 \<Rightarrow> f64 \<Rightarrow> f64" where
  "f64_sub (Finite a) (Finite b) = f64_round (a - b)"
| "f64_sub NaN b = NaN"
| "f64_sub a NaN = NaN"
| "f64_sub PInf PInf = NaN"
| "f64_sub NInf NInf = NaN"
| "f64_sub PInf b = PInf"
| "f64_sub a PInf = NInf"
| "f64_sub NInf b = NInf"
| "f64_sub a NInf = PInf"

fun f64_mul :: "f64 \<Rightarrow> f64 \<Rightarrow> f64" where
  "f64_mul (Finite a) (Finite b) = f64_round (a * b)"
| "f64_mul NaN b = NaN"
| "f64_mul a NaN = NaN"
| "f64_mul (Finite a) PInf = (if a = 0 then NaN else if 0 < a then PInf else NInf)"
| "f64_mul (Finite a) NInf = (if a = 0 then NaN else if 0 < a then NInf else PInf)"
| "f64_mul PInf (Finite b) = (if b = 0 then NaN else if 0 < b then PInf else NInf)"
| "f64_mul NInf (Finite b) = (if b = 0 then NaN else if 0 < b then NInf else PInf)"
| "f64_mul PInf PInf = PInf"
| "f64_mul PInf NInf = NInf"
| "f64_mul NInf PInf = NInf"
| "f64_mul NInf NInf = PInf"

text \<open>The comparison \<open>a < b\<close>: false whenever an operand is NaN.\<close>

fun f64_lt :: "f64 \<Rightarrow> f64 \<Rightarrow> bool" where
  "f64_lt (Finite a) (Finite b) = (a < b)"
| "f64_lt NaN b = False"
| "f64_lt a NaN = False"
| "f64_lt a NInf = False"
| "f64_lt PInf b = False"
| "f64_lt NInf b = True"
| "f64_lt a PInf = True"

subsection \<open>Python operations on floats\<close>

definition py_bind :: "py_error + 'a \<Rightarrow> ('a \<Rightarrow> py_error + 'b) \<Rightarrow> py_error + 'b" where
  "py_bind m f = (case m of Inl e \<Rightarrow> Inl e | Inr v \<Rightarrow> f v)"

text \<open>The conversion of an int operand to float, in \<open>int + float\<close> and \<open>float - int\<close>:
  correctly rounded, \<open>OverflowError\<close> when the int is too large.\<close>

definition py_float :: "int \<Rightarrow> py_error + f64" where
  "py_float n = (case f64_round (of_int n) of Finite r \<Rightarrow> Inr (Finite r) | _ \<Rightarrow> Inl OverflowError)"

text \<open>True division \<open>a / b\<close> of two ints: the correctly rounded quotient.\<close>

definition py_int_truediv :: "int \<Rightarrow> int \<Rightarrow> py_error + f64" where
  "py_int_truediv a b =
     (if b = 0 then Inl ZeroDivisionError
      else case f64_round (of_int a / of_int b) of
             Finite r \<Rightarrow> Inr (Finite r)
           | _ \<Rightarrow> Inl OverflowError)"

text \<open>True division of two floats: \<open>ZeroDivisionError\<close> when the divisor is zero,
  whatever the dividend.\<close>

fun py_float_truediv :: "f64 \<Rightarrow> f64 \<Rightarrow> py_error + f64" where
  "py_float_truediv (Finite a) (Finite b) =
     (if b = 0 then Inl ZeroDivisionError else Inr (f64_round (a / b)))"
| "py_float_truediv a (Finite b) =
     (if b = 0 then Inl ZeroDivisionError
      else Inr (case a of NaN \<Rightarrow> NaN
                | PInf \<Rightarrow> (if 0 < b then PInf else NInf)
                | NInf \<Rightarrow> (if 0 < b then NInf else PInf)
                | Finite c \<Rightarrow> NaN))"
| "py_float_truediv a NaN = Inr NaN"
| "py_float_truediv (Finite a) b = Inr (Finite 0)"
| "py_float_truediv NaN b = Inr NaN"
| "py_float_truediv a b = Inr NaN"

fun py_math_floor :: "f64 \<Rightarrow> py_error + int" where
  "py_math_floor (Finite a) = Inr \<lfloor>a\<rfloor>"
| "py_math_floor NaN = Inl ValueError"
| "py_math_floor a = Inl OverflowError"

fun py_math_sqrt :: "f64 \<Rightarrow> py_error + f64" where
  "py_math_sqrt (Finite a) = (if a < 0 then Inl ValueError else Inr (Finite (rnd (sqrt a))))"
| "py_math_sqrt NaN = Inr NaN"
| "py_math_sqrt PInf = Inr PInf"
| "py_math_sqrt NInf = Inl ValueError"

text \<open>The built-ins \<open>min(a, b)\<close> and \<open>max(a, b)\<close>: the first argument unless the second is
  strictly smaller (larger).\<close>

definition py_min :: "f64 \<Rightarrow> f64 \<Rightarrow> f64" where
  "py_min a b = (if f64_lt b a then b else a)"

definition py_max :: "f64 \<Rightarrow> f64 \<Rightarrow> f64" where
  "py_max a b = (if f64_lt a b then b else a)"

subsection \<open>Worley / cellular noise\<close>

record WorleyNoise2D =
  worley_seed :: int

definition WorleyNoise2D_init :: "int \<Rightarrow> WorleyNoise2D" where
  "WorleyNoise2D_init s = \<lparr>worley_seed = s\<rparr>"

text \<open>\<open>to_unit_double\<close> on binary64: the rounded quotient \<open>v / 0xFFFFFFFF\<close>.\<close>

definition to_unit_double64 :: "int \<Rightarrow> py_error + f64" where
  "to_unit_double64 v = py_int_truediv v 0xFFFFFFFF"

text \<open>\<open>n + f\<close> for an int \<open>n\<close> and a float \<open>f\<close>.\<close>

definition py_int_add_float :: "int \<Rightarrow> f64 \<Rightarrow> py_error + f64" where
  "py_int_add_float n f = py_bind (py_float n) (\<lambda>a. Inr (f64_add a f))"

definition WorleyNoise2D_feature_point ::
  "WorleyNoise2D \<Rightarrow> int \<Rightarrow> int \<Rightarrow> py_error + f64 \<times> f64" where
  "WorleyNoise2D_feature_point self ix iy =
     (let h = hash2d ix iy (worley_seed self);
          hx = hash32 h;
          hy = hash32 (h XOR 0x68BC21EB)
      in py_bind (to_unit_double64 hx) (\<lambda>fx.
         py_bind (to_unit_double64 hy) (\<lambda>fy.
         py_bind (py_int_add_float ix fx) (\<lambda>px.
         py_bind (py_int_add_float iy fy) (\<lambda>py.
         Inr (px, py))))))"

text \<open>The squared distance \<open>d2\<close> that the body of the inner loop computes for the cell
  \<open>(cx, cy)\<close>.\<close>

definition WorleyNoise2D_d2 :: "WorleyNoise2D \<Rightarrow> f64 \<Rightarrow> f64 \<Rightarrow> int \<Rightarrow> int \<Rightarrow> py_error + f64" where
  "WorleyNoise2D_d2 self x y cx cy =
     py_bind (WorleyNoise2D_feature_point self cx cy) (\<lambda>(px, py).
       (let dx = f64_sub px x;
            dy = f64_sub py y
        in Inr (f64_add (f64_mul dx dx) (f64_mul dy dy))))"

text \<open>The body of the inner loop: cell \<open>(x_int + i, y_int + j)\<close> against the running
  minimum.\<close>

definition WorleyNoise2D_cell ::
  "WorleyNoise2D \<Rightarrow> f64 \<Rightarrow> f64 \<Rightarrow> int \<Rightarrow> int \<Rightarrow> int \<Rightarrow> int \<Rightarrow> f64 \<Rightarrow> py_error + f64" where
  "WorleyNoise2D_cell self x y x_int y_int j i min_dist2 =
     (let cx = x_int + i;
          cy = y_int + j
      in py_bind (WorleyNoise2D_d2 self x y cx cy) (\<lambda>d2.
           Inr (if f64_lt d2 min_dist2 then d2 else min_dist2)))"

text \<open>The two nested scans over \<open>range(-1, 2)\<close>, from \<open>min_dist2 = 1e9\<close>.\<close>

definition WorleyNoise2D_scan ::
  "WorleyNoise2D \<Rightarrow> f64 \<Rightarrow> f64 \<Rightarrow> int \<Rightarrow> int \<Rightarrow> py_error + f64" where
  "WorleyNoise2D_scan self x y x_int y_int =
     foldl (\<lambda>acc j.
        foldl (\<lambda>acc' i. py_bind acc' (WorleyNoise2D_cell self x y x_int y_int j i)) acc [- 1, 0, 1])
       (Inr (Finite 1000000000)) [- 1, 0, 1]"

definition WorleyNoise2D_min_dist2 :: "WorleyNoise2D \<Rightarrow> f64 \<Rightarrow> f64 \<Rightarrow> py_error + f64" where
  "WorleyNoise2D_min_dist2 self x y =
     py_bind (py_math_floor x) (\<lambda>x_int.
     py_bind (py_math_floor y) (\<lambda>y_int.
     WorleyNoise2D_scan self x y x_int y_int))"

text \<open>The value \<open>v = d / math.sqrt(3.0)\<close> before the clamp.\<close>

definition WorleyNoise2D_normalized :: "WorleyNoise2D \<Rightarrow> f64 \<Rightarrow> f64 \<Rightarrow> py_error + f64" where
  "WorleyNoise2D_normalized self x y =
     py_bind (WorleyNoise2D_min_dist2 self x y) (\<lambda>min_dist2.
     py_bind (py_math_sqrt min_dist2) (\<lambda>d.
     py_bind (py_math_sqrt (Finite 3)) (\<lambda>r.
     py_float_truediv d r)))"

definition WorleyNoise2D_sample :: "WorleyNoise2D \<Rightarrow> f64 \<Rightarrow> f64 \<Rightarrow> py_error + f64" where
  "WorleyNoise2D_sample self x y =
     py_bind (WorleyNoise2D_normalized self x y) (\<lambda>v.
       Inr (py_max (Finite 0) (py_min (Finite 1) v)))"

section \<open>The hash kernel\<close>

lemma mask32: "(k::int) AND 0xFFFFFFFF = take_bit 32 k"
proof -
  have "(0xFFFFFFFF::int) = mask 32" by (simp add: mask_eq_exp_minus_1)
  then show ?thesis by (simp add: take_bit_eq_mask)
qed

lemma uint_drop_bit32: "uint (drop_bit n (w::32 word)) = drop_bit n (uint w)"
  by (rule bit_eqI) (simp add: bit_unsigned_iff bit_drop_bit_eq)

lemma uint_xorshift:
  assumes "uint (w::32 word) = k"
  shows "uint (w XOR drop_bit n w) = k XOR drop_bit n k"
  using assms by (simp add: uint_xor uint_drop_bit32)

lemma uint_mulmask:
  assumes "uint (w::32 word) = k" and "uint (c::32 word) = d"
  shows "uint (w * c) = (k * d) AND 0xFFFFFFFF"
  using assms by (simp add: mask32 uint_word_ariths take_bit_eq_mod)

lemma uint_mask_id: "uint (w::32 word) AND 0xFFFFFFFF = uint w"
  unfolding mask32 using uint_lt2p [of w] by (simp add: take_bit_int_eq_self_iff)

lemma hash32_word: "hash32 v = uint (hash32_ref (word_of_int v))"
proof -
  define w0 :: "32 word" where "w0 = word_of_int v"
  define w1 where "w1 = w0 XOR drop_bit 16 w0"
  define w2 where "w2 = w1 * 0x7feb352d"
  define w3 where "w3 = w2 XOR drop_bit 15 w2"
  define w4 where "w4 = w3 * 0x846ca68b"
  define w5 where "w5 = w4 XOR drop_bit 16 w4"
  define x1 where "x1 = v AND 0xFFFFFFFF"
  define x2 where "x2 = x1 XOR drop_bit 16 x1"
  define x3 where "x3 = (x2 * 0x7feb352d) AND 0xFFFFFFFF"
  define x4 where "x4 = x3 XOR drop_bit 15 x3"
  define x5 where "x5 = (x4 * 0x846ca68b) AND 0xFFFFFFFF"
  define x6 where "x6 = x5 XOR drop_bit 16 x5"
  have c1: "uint (0x7feb352d :: 32 word) = 0x7feb352d" by simp
  have c2: "uint (0x846ca68b :: 32 word) = 0x846ca68b" by simp
  have e1: "uint w0 = x1"
    unfolding w0_def x1_def mask32 by (simp add: uint_word_of_int_eq)
  have e2: "uint w1 = x2"
    unfolding w1_def x2_def by (rule uint_xorshift [OF e1])
  have e3: "uint w2 = x3"
    unfolding w2_def x3_def by (rule uint_mulmask [OF e2 c1])
  have e4: "uint w3 = x4"
    unfolding w3_def x4_def by (rule uint_xorshift [OF e3])
  have e5: "uint w4 = x5"
    unfolding w4_def x5_def by (rule uint_mulmask [OF e4 c2])
  have e6: "uint w5 = x6"
    unfolding w5_def x6_def by (rule uint_xorshift [OF e5])
  have "hash32 v = x6 AND 0xFFFFFFFF"
    unfolding hash32_def Let_def x6_def x5_def x4_def x3_def x2_def x1_def ..
  also have "\<dots> = uint w5"
    using uint_mask_id [of w5] by (simp only: e6)
  also have "w5 = hash32_ref (word_of_int v)"
    unfolding hash32_ref_def Let_def w5_def w4_def w3_def w2_def w1_def w0_def ..
  finally show ?thesis .
qed

lemma hash32_range: "0 \<le> hash32 v \<and> hash32 v \<le> 0xFFFFFFFF"
  using uint_lt2p [of "hash32_ref (word_of_int v)"] by (simp add: hash32_word)

text \<open>
  Claim C3. For every integer \<open>v\<close>, \<open>hash32 v\<close> is the unsigned value of the reference
  avalanche mix applied to \<open>v\<close> reduced modulo \<open>2 ^ 32\<close> (xor with the shift right by 16,
  multiply by \<open>0x7feb352d\<close>, xor with the shift right by 15, multiply by \<open>0x846ca68b\<close>,
  xor with the shift right by 16, all on 32-bit words), and it lies between \<open>0\<close> and
  \<open>2 ^ 32 - 1\<close>.
\<close>

theorem hash32_refines_reference:
  "hash32 v = uint (hash32_ref (word_of_int (v mod 2 ^ 32)))
   \<and> 0 \<le> hash32 v \<and> hash32 v \<le> 2 ^ 32 - 1"
proof -
  have "(word_of_int (v mod 2 ^ 32) :: 32 word) = word_of_int v"
    by (simp add: word_eq_iff_unsigned [where ?'a = int] uint_word_of_int_eq take_bit_eq_mod)
  then show ?thesis
    using hash32_range [of v] by (simp add: hash32_word)
qed

section \<open>Scalar mapping and interpolation\<close>








lemma fade_0: "fade 0 = 0"
  by (simp add: fade_def)

lemma lerp_0: "lerp a b 0 = a"
  by (simp add: lerp_def)

section \<open>Value noise\<close>



lemma ValueNoise2D_sample_int:
  "ValueNoise2D_sample self (of_int ix) (of_int iy) = to_unit_double (hash2d ix iy (value_seed self))"
  by (simp add: ValueNoise2D_sample_def ValueNoise2D_lattice_value_def Let_def fade_0 lerp_0)

text \<open>
  Claim C2. At an integer lattice coordinate \<open>(ix, iy)\<close> the value noise sample is exactly
  \<open>to_unit_double (hash2d ix iy seed)\<close>, for every seed; in particular with seed 1234
  the sample at \<open>(10, 20)\<close> is \<open>to_unit_double (hash2d 10 20 1234)\<close>, which is
  \<open>196494926 / 4294967295\<close>.
\<close>

theorem ValueNoise2D_sample_lattice:
  "ValueNoise2D_sample (ValueNoise2D_init seed) (of_int ix) (of_int iy)
     = to_unit_double (hash2d ix iy seed)
   \<and> ValueNoise2D_sample (ValueNoise2D_init 1234) 10 20 = to_unit_double (hash2d 10 20 1234)
   \<and> to_unit_double (hash2d 10 20 1234) = 196494926 / 4294967295"
proof -
  have "hash2d 10 20 1234 = 196494926"
    by (simp add: hash2d_def hash32_def Let_def)
  then have "to_unit_double (hash2d 10 20 1234) = 196494926 / 4294967295"
    by (simp add: to_unit_double_def)
  then show ?thesis
    using ValueNoise2D_sample_int [of "ValueNoise2D_init seed" ix iy]
      ValueNoise2D_sample_int [of "ValueNoise2D_init 1234" 10 20]
    by (simp add: ValueNoise2D_init_def)
qed

section \<open>fBm value noise\<close>




text \<open>
  Claim C5. An fBm instance constructed with \<open>octaves = 1\<close> returns, for every seed,
  lacunarity, gain and every \<open>(x, y)\<close>, exactly the sample of the value noise with the
  same seed.
\<close>

theorem FBM_one_octave_is_base:
  "FBMValueNoise2D_sample (FBMValueNoise2D_init seed 1 l g) x y
     = Inr (ValueNoise2D_sample (ValueNoise2D_init seed) x y)"
  by (simp add: FBMValueNoise2D_sample_def FBMValueNoise2D_init_def py_truediv_def)




section \<open>Perlin noise\<close>

lemma and7_range: "0 \<le> (h::int) AND 7 \<and> h AND 7 < 8"
proof -
  have "h AND 7 \<le> 7" by (rule AND_upper2) simp
  moreover have "0 \<le> h AND 7" by simp
  ultimately show ?thesis by simp
qed

lemma gradient_Inr:
  "PerlinNoise2D_gradient self ix iy =
     Inr (PerlinNoise2D_gradients ! nat (hash2d ix iy (perlin_seed self) AND 7))"
  using and7_range [of "hash2d ix iy (perlin_seed self)"]
  by (simp add: PerlinNoise2D_gradient_def Let_def py_getitem_def PerlinNoise2D_gradients_def)

lemma inv_sqrt2_square:
  assumes "c = 1 / sqrt 2"
  shows "c * c = 1 / 2"
  using assms by simp

lemma inv_sqrt2_between:
  assumes "0 \<le> a" and "2 * (a * a) < 1" and "0 \<le> b" and "1 < 2 * (b * b)"
  shows "a < 1 / sqrt 2 \<and> 1 / sqrt 2 < b"
proof -
  have h: "sqrt (1 / 2) = 1 / sqrt 2"
    by (simp add: real_sqrt_divide)
  have "sqrt (a * a) < sqrt (1 / 2)"
    using assms(2) by (subst real_sqrt_less_iff) simp
  moreover have "sqrt (1 / 2) < sqrt (b * b)"
    using assms(4) by (subst real_sqrt_less_iff) simp
  ultimately show ?thesis
    using assms(1,3) unfolding h by simp
qed

lemma diag_ne: "(0.70710678 :: real) \<noteq> 1 / sqrt 2"
proof
  assume "(0.70710678 :: real) = 1 / sqrt 2"
  then have "(0.70710678 :: real) * 0.70710678 = 1 / 2"
    by (rule inv_sqrt2_square)
  then show False by simp
qed

lemma diag_close: "(0.70710678 :: real) < 1 / sqrt 2 \<and> 1 / sqrt 2 < 0.70710679"
  by (rule inv_sqrt2_between) simp_all

lemma dot_grid_gradient_Inr:
  "PerlinNoise2D_dot_grid_gradient self ix iy x y =
     Inr (fst (PerlinNoise2D_gradients ! nat (hash2d ix iy (perlin_seed self) AND 7)) * (x - of_int ix)
        + snd (PerlinNoise2D_gradients ! nat (hash2d ix iy (perlin_seed self) AND 7)) * (y - of_int iy))"
  by (simp add: PerlinNoise2D_dot_grid_gradient_def gradient_Inr Let_def split: prod.split)

text \<open>
  Claim C6, as stated: the palette holds unit vectors, the diagonal ones with components
  \<open>\<plusminus> 1 / sqrt 2\<close>. It fails: the gradient selected at the lattice point \<open>(0, 0)\<close>
  with seed 1234 is the palette entry 4, whose squared length is not 1 and whose
  component is not \<open>1 / sqrt 2\<close>.
\<close>

theorem Perlin_diagonal_not_unit:
  "PerlinNoise2D_gradient (PerlinNoise2D_init 1234) 0 0 = Inr (PerlinNoise2D_gradients ! 4)
   \<and> fst (PerlinNoise2D_gradients ! 4) * fst (PerlinNoise2D_gradients ! 4)
       + snd (PerlinNoise2D_gradients ! 4) * snd (PerlinNoise2D_gradients ! 4) \<noteq> 1
   \<and> fst (PerlinNoise2D_gradients ! 4) \<noteq> 1 / sqrt 2"
proof -
  have "hash2d 0 0 1234 AND 7 = 4"
    by (simp add: hash2d_def hash32_def Let_def)
  then have "PerlinNoise2D_gradient (PerlinNoise2D_init 1234) 0 0 = Inr (PerlinNoise2D_gradients ! 4)"
    by (simp add: gradient_Inr PerlinNoise2D_init_def)
  moreover have "PerlinNoise2D_gradients ! 4 = (0.70710678, 0.70710678)"
    by (simp add: PerlinNoise2D_gradients_def)
  ultimately show ?thesis
    using diag_ne by simp
qed

text \<open>
  Claim C6, amended. The palette consists of exactly 8 distinct vectors in the eight
  directions at 45-degree increments: 4 axis-aligned unit vectors, and 4 diagonal vectors
  whose components are \<open>\<plusminus> 0.70710678\<close>, which is \<open>1 / sqrt 2\<close> cut to 8 decimals
  (between \<open>0.70710678\<close> and \<open>0.70710679\<close>), so that their squared length is
  \<open>0.9999999966439368\<close>. The index \<open>hash2d ix iy seed AND 7\<close> is always within
  \<open>0..7\<close>, and the gradient of a lattice point is the palette entry at that index.
\<close>

theorem Perlin_gradient_palette:
  "length PerlinNoise2D_gradients = 8 \<and> distinct PerlinNoise2D_gradients
   \<and> map (\<lambda>g. (sgn (fst g), sgn (snd g))) PerlinNoise2D_gradients
       = [(1, 0), (- 1, 0), (0, 1), (0, - 1), (1, 1), (- 1, 1), (1, - 1), (- 1, - 1)]
   \<and> map (\<lambda>g. (\<bar>fst g\<bar>, \<bar>snd g\<bar>)) PerlinNoise2D_gradients
       = [(1, 0), (1, 0), (0, 1), (0, 1), (0.70710678, 0.70710678), (0.70710678, 0.70710678),
          (0.70710678, 0.70710678), (0.70710678, 0.70710678)]
   \<and> map (\<lambda>g. fst g * fst g + snd g * snd g) PerlinNoise2D_gradients
       = [1, 1, 1, 1, 0.9999999966439368, 0.9999999966439368, 0.9999999966439368,
          0.9999999966439368]
   \<and> (0.70710678 :: real) < 1 / sqrt 2 \<and> 1 / sqrt 2 < (0.70710679 :: real)
   \<and> 0 \<le> hash2d ix iy (perlin_seed self) AND 7 \<and> hash2d ix iy (perlin_seed self) AND 7 < 8
   \<and> PerlinNoise2D_gradient self ix iy
       = Inr (PerlinNoise2D_gradients ! nat (hash2d ix iy (perlin_seed self) AND 7))"
proof -
  have "length PerlinNoise2D_gradients = 8 \<and> distinct PerlinNoise2D_gradients
    \<and> map (\<lambda>g. (sgn (fst g), sgn (snd g))) PerlinNoise2D_gradients
        = [(1, 0), (- 1, 0), (0, 1), (0, - 1), (1, 1), (- 1, 1), (1, - 1), (- 1, - 1)]
    \<and> map (\<lambda>g. (\<bar>fst g\<bar>, \<bar>snd g\<bar>)) PerlinNoise2D_gradients
        = [(1, 0), (1, 0), (0, 1), (0, 1), (0.70710678, 0.70710678), (0.70710678, 0.70710678),
           (0.70710678, 0.70710678), (0.70710678, 0.70710678)]
    \<and> map (\<lambda>g. fst g * fst g + snd g * snd g) PerlinNoise2D_gradients
        = [1, 1, 1, 1, 0.9999999966439368, 0.9999999966439368, 0.9999999966439368,
           0.9999999966439368]"
    by (simp add: PerlinNoise2D_gradients_def)
  then show ?thesis
    using diag_close and7_range [of "hash2d ix iy (perlin_seed self)"]
      gradient_Inr [of self ix iy]
    by blast
qed

text \<open>
  Claim C7. At an integer lattice coordinate the Perlin sample is exactly \<open>0.5\<close>, for
  every seed.
\<close>

theorem PerlinNoise2D_sample_lattice:
  "PerlinNoise2D_sample (PerlinNoise2D_init seed) (of_int ix) (of_int iy) = Inr 0.5"
  by (simp add: PerlinNoise2D_sample_def dot_grid_gradient_Inr Let_def fade_0 lerp_0)

section \<open>Binary64 rounding\<close>

lemma floorlog2_num: "floorlog 2 (numeral k) = (if (numeral k :: nat) > 0 then floorlog 2 (numeral k div 2) + 1 else 0)"
  by (subst compute_floorlog) simp

lemma floorlog2_0: "floorlog 2 0 = 0" "floorlog 2 1 = 1" "floorlog 2 (Suc 0) = 1"
  by (simp_all add: floorlog_def)

lemmas rnd_ev = rnd_def ilog2_def floorlog2_num floorlog2_0 round_even_def scale2_def Let_def
lemmas f64_ev = f64_round_def py_float_def py_int_truediv_def py_bind_def to_unit_double64_def py_int_add_float_def

lemma round_even_floor_ceiling: "\<lfloor>y\<rfloor> \<le> round_even y \<and> round_even y \<le> \<lceil>y\<rceil>"
proof -
  have "y - of_int \<lfloor>y\<rfloor> \<noteq> 0 \<Longrightarrow> \<lceil>y\<rceil> = \<lfloor>y\<rfloor> + 1"
    by (simp add: ceiling_altdef)
  moreover have "\<lfloor>y\<rfloor> \<le> \<lceil>y\<rceil>"
    by (simp add: floor_le_ceiling)
  ultimately show ?thesis
    unfolding round_even_def Let_def by auto
qed

lemma round_even_ge:
  assumes "of_int n \<le> y"
  shows "n \<le> round_even y"
proof -
  have "n \<le> \<lfloor>y\<rfloor>" using assms by (simp add: le_floor_iff)
  then show ?thesis using round_even_floor_ceiling [of y] by linarith
qed

lemma round_even_le:
  assumes "y \<le> of_int n"
  shows "round_even y \<le> n"
proof -
  have "\<lceil>y\<rceil> \<le> n" using assms by (simp add: ceiling_le_iff)
  then show ?thesis using round_even_floor_ceiling [of y] by linarith
qed

lemma round_even_between:
  assumes "of_int k - 1 / 2 < y" and "y < of_int k + 1 / 2"
  shows "round_even y = k"
proof -
  have "\<lfloor>y\<rfloor> = k - 1 \<or> \<lfloor>y\<rfloor> = k"
    using assms by linarith
  then show ?thesis
  proof
    assume f: "\<lfloor>y\<rfloor> = k - 1"
    then have "1 / 2 < y - of_int \<lfloor>y\<rfloor>" using assms by simp
    then show ?thesis unfolding round_even_def Let_def using f by simp
  next
    assume f: "\<lfloor>y\<rfloor> = k"
    then have "y - of_int \<lfloor>y\<rfloor> < 1 / 2" using assms by simp
    then show ?thesis unfolding round_even_def Let_def using f by simp
  qed
qed

lemma scale2_pos: "0 < scale2 e"
  by (simp add: scale2_def)

lemma rnd_sqrt_unit:
  assumes "1 \<le> a" and "a < 4" and "1 \<le> k"
    and "(of_int k - 1 / 2)\<^sup>2 < a * 2 ^ 104" and "a * 2 ^ 104 < (of_int k + 1 / 2)\<^sup>2"
  shows "rnd (sqrt a) = of_int k / 2 ^ 52"
proof -
  have s1: "1 \<le> sqrt a" using assms(1) by simp
  have "sqrt a < sqrt 4" using assms(2) by (simp only: real_sqrt_less_iff)
  then have s2: "sqrt a < 2" by simp
  have fl: "\<lfloor>sqrt a\<rfloor> = 1" using s1 s2 by linarith
  have il: "ilog2 (sqrt a) = 0"
    using s1 by (simp add: ilog2_def fl floorlog2_0)
  have sq: "sqrt a * 2 ^ 52 = sqrt (a * 2 ^ 104)"
  proof -
    have "(2::real) ^ 104 = (2 ^ 52)\<^sup>2" by simp
    then have "sqrt ((2::real) ^ 104) = 2 ^ 52" by (simp only: real_sqrt_abs) simp
    then show ?thesis by (simp add: real_sqrt_mult)
  qed
  have lo: "of_int k - 1 / 2 < sqrt (a * 2 ^ 104)"
    using assms(4) by (rule real_less_rsqrt)
  have hi: "sqrt (a * 2 ^ 104) < of_int k + 1 / 2"
    using assms(3,5) by (intro real_less_lsqrt) simp_all
  have "round_even (sqrt a * 2 ^ 52) = k"
    using lo hi unfolding sq by (rule round_even_between)
  then show ?thesis
    using s1 by (simp add: rnd_def il scale2_def)
qed

lemma rnd_sqrt3: "rnd (sqrt 3) = 3900231685776981 / 2251799813685248"
proof -
  have "rnd (sqrt 3) = of_int 7800463371553962 / 2 ^ 52"
    by (rule rnd_sqrt_unit) (simp_all add: power2_eq_square)
  then show ?thesis by simp
qed

lemma rnd_2: "rnd 2 = 2"
  by (simp add: rnd_ev)

section \<open>Worley noise\<close>

lemma c10_cell0:
  "WorleyNoise2D_d2 (WorleyNoise2D_init 1234) (Finite 9007201250527650) (Finite 9007199254740994) 9007201250527649 9007199254740993 = Inr (Finite 8)"
  by (simp add: WorleyNoise2D_d2_def WorleyNoise2D_feature_point_def WorleyNoise2D_init_def
      hash2d_def hash32_def f64_ev rnd_ev)

lemma c10_cell1:
  "WorleyNoise2D_d2 (WorleyNoise2D_init 1234) (Finite 9007201250527650) (Finite 9007199254740994) 9007201250527650 9007199254740993 = Inr (Finite 4)"
  by (simp add: WorleyNoise2D_d2_def WorleyNoise2D_feature_point_def WorleyNoise2D_init_def
      hash2d_def hash32_def f64_ev rnd_ev)

lemma c10_cell2:
  "WorleyNoise2D_d2 (WorleyNoise2D_init 1234) (Finite 9007201250527650) (Finite 9007199254740994) 9007201250527651 9007199254740993 = Inr (Finite 8)"
  by (simp add: WorleyNoise2D_d2_def WorleyNoise2D_feature_point_def WorleyNoise2D_init_def
      hash2d_def hash32_def f64_ev rnd_ev)

lemma c10_cell3:
  "WorleyNoise2D_d2 (WorleyNoise2D_init 1234) (Finite 9007201250527650) (Finite 9007199254740994) 9007201250527649 9007199254740994 = Inr (Finite 4)"
  by (simp add: WorleyNoise2D_d2_def WorleyNoise2D_feature_point_def WorleyNoise2D_init_def
      hash2d_def hash32_def f64_ev rnd_ev)

lemma c10_cell4:
  "WorleyNoise2D_d2 (WorleyNoise2D_init 1234) (Finite 9007201250527650) (Finite 9007199254740994) 9007201250527650 9007199254740994 = Inr (Finite 4)"
  by (simp add: WorleyNoise2D_d2_def WorleyNoise2D_feature_point_def WorleyNoise2D_init_def
      hash2d_def hash32_def f64_ev rnd_ev)

lemma c10_cell5:
  "WorleyNoise2D_d2 (WorleyNoise2D_init 1234) (Finite 9007201250527650) (Finite 9007199254740994) 9007201250527651 9007199254740994 = Inr (Finite 4)"
  by (simp add: WorleyNoise2D_d2_def WorleyNoise2D_feature_point_def WorleyNoise2D_init_def
      hash2d_def hash32_def f64_ev rnd_ev)

lemma c10_cell6:
  "WorleyNoise2D_d2 (WorleyNoise2D_init 1234) (Finite 9007201250527650) (Finite 9007199254740994) 9007201250527649 9007199254740995 = Inr (Finite 8)"
  by (simp add: WorleyNoise2D_d2_def WorleyNoise2D_feature_point_def WorleyNoise2D_init_def
      hash2d_def hash32_def f64_ev rnd_ev)

lemma c10_cell7:
  "WorleyNoise2D_d2 (WorleyNoise2D_init 1234) (Finite 9007201250527650) (Finite 9007199254740994) 9007201250527650 9007199254740995 = Inr (Finite 4)"
  by (simp add: WorleyNoise2D_d2_def WorleyNoise2D_feature_point_def WorleyNoise2D_init_def
      hash2d_def hash32_def f64_ev rnd_ev)

lemma c10_cell8:
  "WorleyNoise2D_d2 (WorleyNoise2D_init 1234) (Finite 9007201250527650) (Finite 9007199254740994) 9007201250527651 9007199254740995 = Inr (Finite 8)"
  by (simp add: WorleyNoise2D_d2_def WorleyNoise2D_feature_point_def WorleyNoise2D_init_def
      hash2d_def hash32_def f64_ev rnd_ev)

lemma c10_scan:
  "WorleyNoise2D_scan (WorleyNoise2D_init 1234) (Finite 9007201250527650) (Finite 9007199254740994) 9007201250527650 9007199254740994 = Inr (Finite 4)"
  by (simp add: WorleyNoise2D_scan_def WorleyNoise2D_cell_def py_bind_def Let_def
      c10_cell0 c10_cell1 c10_cell2 c10_cell3 c10_cell4 c10_cell5 c10_cell6 c10_cell7 c10_cell8)

lemma c10_min_dist2:
  "WorleyNoise2D_min_dist2 (WorleyNoise2D_init 1234) (Finite 9007201250527650) (Finite 9007199254740994) = Inr (Finite 4)"
  by (simp add: WorleyNoise2D_min_dist2_def py_bind_def c10_scan)

lemma py_sqrt_4: "py_math_sqrt (Finite 4) = Inr (Finite 2)"
  by (simp add: rnd_2)

lemma py_sqrt_3: "py_math_sqrt (Finite 3) = Inr (Finite (3900231685776981 / 2251799813685248))"
  by (simp add: rnd_sqrt3)

lemma c10_div:
  "py_float_truediv (Finite 2) (Finite (3900231685776981 / 2251799813685248))
     = Inr (Finite (5200308914369309 / 4503599627370496))"
  by (simp add: f64_round_def rnd_ev)

lemma c10_normalized:
  "WorleyNoise2D_normalized (WorleyNoise2D_init 1234) (Finite 9007201250527650) (Finite 9007199254740994) = Inr (Finite (5200308914369309 / 4503599627370496))"
  unfolding WorleyNoise2D_normalized_def c10_min_dist2 py_bind_def
  by (simp only: sum.case py_sqrt_4 py_sqrt_3 c10_div)

lemma c10_sample:
  "WorleyNoise2D_sample (WorleyNoise2D_init 1234) (Finite 9007201250527650) (Finite 9007199254740994) = Inr (Finite 1)"
  unfolding WorleyNoise2D_sample_def c10_normalized py_bind_def
  by (simp add: py_min_def py_max_def)

text \<open>
  Claim C10. For some seed and \<open>(x, y)\<close> the normalised distance \<open>d / sqrt 3\<close>
  computed before the clamp exceeds 1: with seed 1234 at
  \<open>(9007201250527650.0, 9007199254740994.0)\<close> every feature point of the nine scanned
  cells is rounded to a distance of at least 2, the minimum squared distance is 4 and the
  normalised distance is \<open>1.1547005383792517\<close>, which the clamp turns into 1.
\<close>

theorem Worley_normalized_exceeds_one:
  "WorleyNoise2D_min_dist2 (WorleyNoise2D_init 1234) (Finite 9007201250527650) (Finite 9007199254740994) = Inr (Finite 4)
   \<and> WorleyNoise2D_normalized (WorleyNoise2D_init 1234) (Finite 9007201250527650) (Finite 9007199254740994) = Inr (Finite (5200308914369309 / 4503599627370496))
   \<and> (1::real) < 5200308914369309 / 4503599627370496
   \<and> WorleyNoise2D_sample (WorleyNoise2D_init 1234) (Finite 9007201250527650) (Finite 9007199254740994) = Inr (Finite 1)
   \<and> (\<exists>seed x y v. WorleyNoise2D_normalized (WorleyNoise2D_init seed) x y = Inr (Finite v) \<and> 1 < v)"
proof -
  have "(1::real) < 5200308914369309 / 4503599627370496" by simp
  with c10_normalized have
    "\<exists>seed x y v. WorleyNoise2D_normalized (WorleyNoise2D_init seed) x y = Inr (Finite v) \<and> 1 < v"
    by blast
  then show ?thesis
    using c10_min_dist2 c10_normalized c10_sample by simp
qed

end
